theory Spec2Isabelle
  imports Complex_Main "HOL-Library.Sublist"
begin

section \<open>Canonical record model\<close>

text \<open>
  \<^verbatim>\<open>time.Time\<close> is kept as the instant it denotes (seconds and nanoseconds relative to the
  Unix epoch) together with its location. The zero value of \<^verbatim>\<open>time.Time\<close> is
  January 1, year 1, 00:00:00 UTC, that is Unix second \<open>-62135596800\<close>.
\<close>

datatype location = UTC | Local | FixedZone string int

record go_time =
  unix_sec :: int
  nsec :: int
  loc :: location


definition IsZero :: "go_time \<Rightarrow> bool" where
  "IsZero t \<longleftrightarrow> unix_sec t = - 62135596800 \<and> nsec t = 0"

definition Unix :: "go_time \<Rightarrow> int" where
  "Unix t = unix_sec t"

definition to_UTC :: "go_time \<Rightarrow> go_time" where
  "to_UTC t = t\<lparr>loc := UTC\<rparr>"

text \<open>
  \<^verbatim>\<open>models.Transaction\<close>. The two \<^verbatim>\<open>int64\<close> fields are integers; the program only
  compares and prints them, and every value stored comes from a range-checked parse or
  conversion.
\<close>

record transaction =
  ID :: string
  Country :: string
  Region :: string
  ProductName :: string
  UnitPriceCents :: int
  Quantity :: int
  TxTime :: go_time

text \<open>A Go \<^verbatim>\<open>map[string]bool\<close>; reading a missing key yields \<^verbatim>\<open>false\<close>.\<close>

type_synonym bool_map = "string \<rightharpoonup> bool"

definition lookup_bool :: "bool_map \<Rightarrow> string \<Rightarrow> bool" where
  "lookup_bool m k = (case m k of None \<Rightarrow> False | Some b \<Rightarrow> b)"

section \<open>Strings\<close>

text \<open>
  A Go \<^verbatim>\<open>string\<close> is a sequence of bytes, here a list of 8-bit characters; text outside
  ASCII appears as its UTF-8 bytes. \<^verbatim>\<open>strings.HasPrefix\<close>, \<^verbatim>\<open>strings.HasSuffix\<close> and
  \<^verbatim>\<open>strings.Contains\<close> compare bytes.
\<close>

definition HasPrefix :: "string \<Rightarrow> string \<Rightarrow> bool" where
  "HasPrefix s p \<longleftrightarrow> length s \<ge> length p \<and> take (length p) s = p"

definition HasSuffix :: "string \<Rightarrow> string \<Rightarrow> bool" where
  "HasSuffix s p \<longleftrightarrow> length s \<ge> length p \<and> drop (length s - length p) s = p"

fun Contains :: "string \<Rightarrow> string \<Rightarrow> bool" where
  "Contains [] substr = (substr = [])"
| "Contains (c # cs) substr = (HasPrefix (c # cs) substr \<or> Contains cs substr)"

text \<open>
  \<^verbatim>\<open>strings.TrimSpace\<close> removes leading and trailing white space as Unicode defines it:
  the six ASCII characters tab, line feed, vertical tab, form feed, carriage return and
  space, and the code points U+0085, U+00A0, U+1680, U+2000 to U+200A, U+2028, U+2029,
  U+202F, U+205F and U+3000, listed here by their UTF-8 encodings.
\<close>

definition white_space :: "string list" where
  "white_space =
     [[CHR 0x09], [CHR 0x0A], [CHR 0x0B], [CHR 0x0C], [CHR 0x0D], [CHR 0x20],
      [CHR 0xC2, CHR 0x85], [CHR 0xC2, CHR 0xA0], [CHR 0xE1, CHR 0x9A, CHR 0x80],
      [CHR 0xE2, CHR 0x80, CHR 0x80], [CHR 0xE2, CHR 0x80, CHR 0x81],
      [CHR 0xE2, CHR 0x80, CHR 0x82], [CHR 0xE2, CHR 0x80, CHR 0x83],
      [CHR 0xE2, CHR 0x80, CHR 0x84], [CHR 0xE2, CHR 0x80, CHR 0x85],
      [CHR 0xE2, CHR 0x80, CHR 0x86], [CHR 0xE2, CHR 0x80, CHR 0x87],
      [CHR 0xE2, CHR 0x80, CHR 0x88], [CHR 0xE2, CHR 0x80, CHR 0x89],
      [CHR 0xE2, CHR 0x80, CHR 0x8A], [CHR 0xE2, CHR 0x80, CHR 0xA8],
      [CHR 0xE2, CHR 0x80, CHR 0xA9], [CHR 0xE2, CHR 0x80, CHR 0xAF],
      [CHR 0xE2, CHR 0x81, CHR 0x9F], [CHR 0xE3, CHR 0x80, CHR 0x80]]"

text \<open>The length of the white-space character \<open>s\<close> starts with (ends with); 0 if none.\<close>

definition leading_space :: "string \<Rightarrow> nat" where
  "leading_space s = (case find (HasPrefix s) white_space of None \<Rightarrow> 0 | Some w \<Rightarrow> length w)"

definition trailing_space :: "string \<Rightarrow> nat" where
  "trailing_space s = (case find (HasSuffix s) white_space of None \<Rightarrow> 0 | Some w \<Rightarrow> length w)"

function TrimLeft_space :: "string \<Rightarrow> string" where
  "TrimLeft_space s =
     (if leading_space s = 0 \<or> length s < leading_space s then s
      else TrimLeft_space (drop (leading_space s) s))"
  by pat_completeness auto
termination
  by (relation "measure length") auto

function TrimRight_space :: "string \<Rightarrow> string" where
  "TrimRight_space s =
     (if trailing_space s = 0 \<or> length s < trailing_space s then s
      else TrimRight_space (take (length s - trailing_space s) s))"
  by pat_completeness auto
termination
  by (relation "measure length") auto

declare TrimLeft_space.simps [simp del] TrimRight_space.simps [simp del]

definition TrimSpace :: "string \<Rightarrow> string" where
  "TrimSpace s = TrimRight_space (TrimLeft_space s)"

text \<open>
  \<^verbatim>\<open>strings.ToLower\<close>. ASCII letters are mapped to lower case. Of the letters outside
  ASCII, two have an ASCII lower case: U+0130 (\<open>i\<close>) and U+212A (\<open>k\<close>). Every other byte
  from 0x80 is left as it is: Go would lower-case further non-ASCII letters and replace
  invalid UTF-8, and either way the result stays outside ASCII at that place.
\<close>

definition lower_byte :: "char \<Rightarrow> char" where
  "lower_byte c =
     (if 65 \<le> (of_char c :: nat) \<and> (of_char c :: nat) \<le> 90 then char_of (of_char c + (32 :: nat)) else c)"

fun ToLower :: "string \<Rightarrow> string" where
  "ToLower (a # b # c # cs) =
     (if a = CHR 0xC4 \<and> b = CHR 0xB0 then CHR ''i'' # ToLower (c # cs)
      else if a = CHR 0xE2 \<and> b = CHR 0x84 \<and> c = CHR 0xAA then CHR ''k'' # ToLower cs
      else lower_byte a # ToLower (b # c # cs))"
| "ToLower [a, b] =
     (if a = CHR 0xC4 \<and> b = CHR 0xB0 then [CHR ''i''] else [lower_byte a, lower_byte b])"
| "ToLower [a] = [lower_byte a]"
| "ToLower [] = []"

text \<open>
  \<^verbatim>\<open>filepath.Ext\<close>: the suffix beginning at the last dot of the last element of the path,
  empty if there is no dot (the path separator is \<open>/\<close>). The scan runs from the end of
  the path; \<open>seen\<close> holds the bytes already passed.
\<close>

fun Ext_scan :: "string \<Rightarrow> string \<Rightarrow> string" where
  "Ext_scan [] seen = []"
| "Ext_scan (c # front) seen =
     (if c = CHR ''/'' then []
      else if c = CHR ''.'' then c # seen
      else Ext_scan front (c # seen))"

definition filepath_Ext :: "string \<Rightarrow> string" where
  "filepath_Ext path = Ext_scan (rev path) []"

section \<open>Numbers\<close>

text \<open>
  A \<^verbatim>\<open>float64\<close>: a finite value is the rational it denotes (the sign of a zero is not
  kept), besides the two infinities and NaN.
\<close>

datatype float64 = Finite rat | PosInf | NegInf | NaN

text \<open>The number of binary digits of a positive integer.\<close>

function bit_length :: "int \<Rightarrow> nat" where
  "bit_length n = (if n \<le> 0 then 0 else Suc (bit_length (n div 2)))"
  by pat_completeness auto
termination
  by (relation "measure nat") auto

declare bit_length.simps [simp del]

text \<open>\<open>\<lfloor>log\<^sub>2 (n / d)\<rfloor>\<close> for positive \<open>n\<close> and \<open>d\<close>.\<close>

definition floor_log2 :: "int \<Rightarrow> int \<Rightarrow> int" where
  "floor_log2 n d =
     (let k = int (bit_length n) - int (bit_length d)
      in if d * 2 ^ nat k \<le> n * 2 ^ nat (- k) then k else k - 1)"

text \<open>The integer nearest to \<open>n / d\<close>, the even one of two equally near.\<close>

definition round_half_even :: "int \<Rightarrow> int \<Rightarrow> int" where
  "round_half_even n d =
     (let q = n div d; r = n mod d
      in if 2 * r < d then q else if d < 2 * r then q + 1 else if even q then q else q + 1)"

text \<open>
  IEEE 754 rounding of a real value to binary64, to nearest, ties to even: the value is
  written as \<open>m * 2\<^sup>e\<close> with \<open>m\<close> an integer of at most 53 bits and \<open>e \<ge> -1074\<close>, and
  a result of magnitude \<open>2\<^sup>1\<^sup>0\<^sup>2\<^sup>4\<close> or more, that is \<open>m * 2\<^sup>e\<^sup>-\<^sup>9\<^sup>7\<^sup>1 \<ge> 2\<^sup>5\<^sup>3\<close>, is an infinity.
\<close>

definition float64_of_rat :: "rat \<Rightarrow> float64" where
  "float64_of_rat x =
     (if x = 0 then Finite 0
      else
        let (n, d) = quotient_of \<bar>x\<bar>;
            e = max (floor_log2 n d - 52) (- 1074);
            m = round_half_even (n * 2 ^ nat (- e)) (d * 2 ^ nat e);
            y = (if 0 \<le> e then of_int (m * 2 ^ nat e) else Fract m (2 ^ nat (- e)))
        in if 971 \<le> e \<and> 2 ^ 53 \<le> m * 2 ^ nat (e - 971) then (if x < 0 then NegInf else PosInf)
           else Finite (if x < 0 then - y else y))"

text \<open>The product of two \<^verbatim>\<open>float64\<close> values.\<close>

fun f64_mul :: "float64 \<Rightarrow> float64 \<Rightarrow> float64" where
  "f64_mul (Finite a) (Finite b) = float64_of_rat (a * b)"
| "f64_mul NaN g = NaN"
| "f64_mul f NaN = NaN"
| "f64_mul PosInf (Finite b) = (if b = 0 then NaN else if b < 0 then NegInf else PosInf)"
| "f64_mul NegInf (Finite b) = (if b = 0 then NaN else if b < 0 then PosInf else NegInf)"
| "f64_mul (Finite a) PosInf = (if a = 0 then NaN else if a < 0 then NegInf else PosInf)"
| "f64_mul (Finite a) NegInf = (if a = 0 then NaN else if a < 0 then PosInf else NegInf)"
| "f64_mul PosInf PosInf = PosInf"
| "f64_mul NegInf NegInf = PosInf"
| "f64_mul PosInf NegInf = NegInf"
| "f64_mul NegInf PosInf = NegInf"

definition f64_neg :: "float64 \<Rightarrow> float64" where
  "f64_neg f = (case f of Finite x \<Rightarrow> Finite (- x) | PosInf \<Rightarrow> NegInf | NegInf \<Rightarrow> PosInf | NaN \<Rightarrow> NaN)"

text \<open>
  The conversion \<^verbatim>\<open>int64(f)\<close> discards the fraction. For a value that does not fit, an
  infinity or NaN, the language leaves the result to the implementation; the one of amd64,
  \<open>-2\<^sup>6\<^sup>3\<close>, is used.
\<close>

definition int64_of_float64 :: "float64 \<Rightarrow> int" where
  "int64_of_float64 f =
     (case f of
        Finite x \<Rightarrow>
          (let t = (if 0 \<le> x then \<lfloor>x\<rfloor> else - \<lfloor>- x\<rfloor>)
           in if - (2 ^ 63) \<le> t \<and> t < 2 ^ 63 then t else - (2 ^ 63))
      | _ \<Rightarrow> - (2 ^ 63))"


definition is_digit :: "char \<Rightarrow> bool" where
  "is_digit c \<longleftrightarrow> c \<in> set ''0123456789''"

definition is_letter_or_digit :: "char \<Rightarrow> bool" where
  "is_letter_or_digit c \<longleftrightarrow>
     is_digit c \<or> (97 \<le> (of_char c :: nat) \<and> (of_char c :: nat) \<le> 122) \<or>
     (65 \<le> (of_char c :: nat) \<and> (of_char c :: nat) \<le> 90)"

definition digit_value :: "char \<Rightarrow> int" where
  "digit_value c = int (length (takeWhile (\<lambda>d. d \<noteq> c) ''0123456789''))"

fun digits_value :: "int \<Rightarrow> string \<Rightarrow> int" where
  "digits_value acc [] = acc"
| "digits_value acc (c # cs) = digits_value (acc * 10 + digit_value c) cs"

text \<open>
  \<^verbatim>\<open>strconv.ParseInt(s, 10, 64)\<close>: an optional sign and one or more decimal digits; a
  value outside the \<^verbatim>\<open>int64\<close> range is an error.
\<close>

definition ParseInt :: "string \<Rightarrow> string + int" where
  "ParseInt s =
     (let neg = (s \<noteq> [] \<and> hd s = CHR ''-'');
          ds = (if s \<noteq> [] \<and> (hd s = CHR ''-'' \<or> hd s = CHR ''+'') then tl s else s)
      in if ds = [] \<or> \<not> list_all is_digit ds
           then Inl (''strconv.ParseInt: parsing '' @ s @ '': invalid syntax'')
         else
           let v = (if neg then - digits_value 0 ds else digits_value 0 ds)
           in if v < - (2 ^ 63) \<or> 2 ^ 63 \<le> v
                then Inl (''strconv.ParseInt: parsing '' @ s @ '': value out of range'')
              else Inr v)"

text \<open>
  \<^verbatim>\<open>strconv.ParseFloat(s, 64)\<close> on plain decimal text: an optional sign, digits, and
  optionally a point and digits, with a digit on at least one side of the point. The
  result is the nearest \<^verbatim>\<open>float64\<close>. The library function accepts more (exponents,
  hexadecimal notation, underscores between digits, \<open>Inf\<close>, \<open>NaN\<close>); this function rejects
  such text and stands for the library only where the text is plain decimal.
\<close>

definition ParseFloat_decimal :: "string \<Rightarrow> string + float64" where
  "ParseFloat_decimal s =
     (let neg = (s \<noteq> [] \<and> hd s = CHR ''-'');
          body = (if s \<noteq> [] \<and> (hd s = CHR ''-'' \<or> hd s = CHR ''+'') then tl s else s);
          whole = takeWhile is_digit body;
          rest = dropWhile is_digit body;
          point = (rest \<noteq> [] \<and> hd rest = CHR ''.'');
          frac = (if point then tl rest else [])
      in if (whole = [] \<and> frac = []) \<or> (rest \<noteq> [] \<and> \<not> point) \<or> \<not> list_all is_digit frac
           then Inl (''strconv.ParseFloat: parsing '' @ s @ '': invalid syntax'')
         else
           (case float64_of_rat (of_int (digits_value 0 (whole @ frac)) / 10 ^ length frac) of
              Finite x \<Rightarrow> Inr (Finite (if neg then - x else x))
            | _ \<Rightarrow> Inl (''strconv.ParseFloat: parsing '' @ s @ '': value out of range'')))"

text \<open>\<^verbatim>\<open>strings.ReplaceAll(s, old, "")\<close>: every non-overlapping occurrence of \<open>old\<close> is removed,
  from the left.\<close>

function RemoveAll :: "string \<Rightarrow> string \<Rightarrow> string" where
  "RemoveAll [] old = []"
| "RemoveAll (c # cs) old =
     (if old \<noteq> [] \<and> HasPrefix (c # cs) old then RemoveAll (drop (length old) (c # cs)) old
      else c # RemoveAll cs old)"
  by pat_completeness auto
termination
  by (relation "measure (\<lambda>(s, old). length s)") auto

section \<open>Decoded values\<close>

text \<open>
  A decoded JSON or YAML value, Go's \<^verbatim>\<open>interface{}\<close>: \<^verbatim>\<open>encoding/json\<close> yields strings,
  \<^verbatim>\<open>float64\<close> numbers, booleans, \<^verbatim>\<open>nil\<close>, slices and string-keyed maps; \<^verbatim>\<open>yaml.v2\<close> also
  yields \<^verbatim>\<open>int\<close> and \<^verbatim>\<open>int64\<close> numbers and maps with keys of any type. Maps are
  association lists without repeated keys.
\<close>

datatype dyn =
    DString string
  | DFloat64 float64
  | DInt int
  | DInt64 int
  | DBool bool
  | DNil
  | DSlice "dyn list"
  | DStringMap "(string \<times> dyn) list"
  | DAnyMap "(dyn \<times> dyn) list"

section \<open>Configuration and library\<close>

text \<open>\<^verbatim>\<open>TransformConfig\<close>.\<close>

record TransformConfig =
  EnableValidation :: bool
  EnableOptimization :: bool
  DateFormats :: "string list"
  CurrencyFormats :: "string list"
  NullValues :: "string list"
  DefaultCountry :: string
  DefaultRegion :: string
  PriceMultiplier :: float64
  CustomMappings :: "string \<rightharpoonup> string"
  DataTypes :: "string \<rightharpoonup> string"

text \<open>
  The functions of Go's standard library that the pipeline calls and that are taken as
  given, each a parameter of the embedding:
  \<^item> \<^verbatim>\<open>strconv.ParseFloat(s, 64)\<close>, \<^verbatim>\<open>time.Parse(layout, value)\<close> and
    \<^verbatim>\<open>fmt.Sprintf("%v", v)\<close>;
  \<^item> \<^verbatim>\<open>regexp.MustCompile(pattern).ReplaceAllString(src, repl)\<close>, \<^verbatim>\<open>strings.Title\<close>,
    \<^verbatim>\<open>strings.ToUpper\<close> and \<^verbatim>\<open>strings.Fields\<close>;
  \<^item> the two instants \<^verbatim>\<open>time.Now().AddDate(-10, 0, 0)\<close> and \<^verbatim>\<open>time.Now().AddDate(1, 0, 0)\<close>,
    as Unix seconds and nanoseconds;
  \<^item> the decoders. \<open>csv_Read comma variable bytes\<close> is the list of the results of the
    successive \<^verbatim>\<open>Read\<close> calls, up to the end of the input, of an \<^verbatim>\<open>encoding/csv\<close> reader
    over the bytes with that delimiter and \<^verbatim>\<open>TrimLeadingSpace\<close> set; \<open>variable\<close> says that
    \<^verbatim>\<open>FieldsPerRecord\<close> is \<open>-1\<close> (records may differ in length) rather than \<open>0\<close>.
    \<open>json_Decode\<close> and \<open>yaml_Decode\<close> are \<^verbatim>\<open>Decode\<close> of \<^verbatim>\<open>encoding/json\<close> and of \<^verbatim>\<open>yaml.v2\<close>
    into an \<^verbatim>\<open>interface{}\<close>.
  What the program prints and logs is not part of the embedding.
\<close>

record go_lib =
  ParseFloat :: "string \<Rightarrow> string + float64"
  time_Parse :: "string \<Rightarrow> string \<Rightarrow> string + go_time"
  Sprintf_v :: "dyn \<Rightarrow> string"
  ReplaceAllString :: "string \<Rightarrow> string \<Rightarrow> string \<Rightarrow> string"
  Title :: "string \<Rightarrow> string"
  ToUpper :: "string \<Rightarrow> string"
  Fields :: "string \<Rightarrow> string list"
  ten_years_ago :: "int \<times> int"
  one_year_ahead :: "int \<times> int"
  csv_Read :: "char \<Rightarrow> bool \<Rightarrow> string \<Rightarrow> (string + string list) list"
  json_Decode :: "string \<Rightarrow> string + dyn"
  yaml_Decode :: "string \<Rightarrow> string + dyn"

text \<open>The pieces of a text between the occurrences of a separator.\<close>

definition split_on :: "char \<Rightarrow> string \<Rightarrow> string list" where
  "split_on sep s = foldr (\<lambda>c pieces. if c = sep then [] # pieces else (c # hd pieces) # tl pieces) s [[]]"

text \<open>\<^verbatim>\<open>strings.Title\<close> on ASCII text: a lower-case letter that follows a character other
  than a letter, a digit or an underscore, or that begins the text, is made upper case.\<close>

fun title_ascii :: "bool \<Rightarrow> string \<Rightarrow> string" where
  "title_ascii starts [] = []"
| "title_ascii starts (c # cs) =
     (if starts \<and> 97 \<le> (of_char c :: nat) \<and> (of_char c :: nat) \<le> 122
      then char_of (of_char c - (32 :: nat)) else c) #
     title_ascii (\<not> (is_letter_or_digit c \<or> c = CHR ''_'')) cs"

text \<open>
  A library environment for the concrete runs below. It stands for the library on the
  texts those runs use and on no others: \<^verbatim>\<open>strconv.ParseFloat\<close> on plain decimal text;
  \<^verbatim>\<open>time.Parse\<close> on the date \<open>2024-03-15\<close>, which the layout \<open>2006-01-02\<close> reads as midnight
  UTC of that day (Unix second 1710460800) and every other layout of this program rejects,
  and on text made of digits and a sign only, which every layout of this program rejects
  (each layout begins with a four-digit year followed by \<open>-\<close> or \<open>/\<close>, a two-digit month
  followed by \<open>/\<close>, a day followed by \<open>-\<close> or a space, or the name of a month or a weekday);
  \<^verbatim>\<open>encoding/csv\<close> on lines that end in a line feed and hold no quote, no carriage return
  and no space after a delimiter, each record with as many fields as the first;
  \<^verbatim>\<open>strings.Title\<close> on ASCII text; \<^verbatim>\<open>strings.ToUpper\<close> on a single upper-case letter;
  \<^verbatim>\<open>strings.Fields\<close> on a word without white space; and \<^verbatim>\<open>ReplaceAllString\<close> on the texts
  \<open>TX1\<close>, \<open>TX7\<close>, \<open>Canada\<close>, \<open>West\<close>, \<open>Widget\<close>, \<open>Gadget\<close> and the empty text, which no
  pattern of this program changes. The clock reads 1 November 2026.
\<close>

definition example_lib :: go_lib where
  "example_lib =
     \<lparr>ParseFloat = ParseFloat_decimal,
      time_Parse = (\<lambda>layout val.
        if layout = ''2006-01-02'' \<and> val = ''2024-03-15''
        then Inr \<lparr>unix_sec = 1710460800, nsec = 0, loc = UTC\<rparr>
        else Inl (''parsing time '' @ val @ '' as '' @ layout)),
      Sprintf_v = (\<lambda>v. []),
      ReplaceAllString = (\<lambda>pattern src repl. src),
      Title = title_ascii True,
      ToUpper = (\<lambda>s. s),
      Fields = (\<lambda>s. [s]),
      ten_years_ago = (1477958400, 0),
      one_year_ahead = (1825027200, 0),
      csv_Read = (\<lambda>comma variable bytes.
        map (\<lambda>line. Inr (split_on comma line)) (filter (\<lambda>line. line \<noteq> []) (split_on (CHR 0x0A) bytes))),
      json_Decode = (\<lambda>bytes. Inl ''unexpected end of JSON input''),
      yaml_Decode = (\<lambda>bytes. Inl ''yaml: did not find expected node content'')\<rparr>"

section \<open>Format detection\<close>

datatype DataFormat = FormatCSV | FormatJSON | FormatYAML | FormatTSV | FormatXML

text \<open>\<^verbatim>\<open>FormatConverter.DetectFormat\<close>.\<close>

definition DetectFormat :: "string \<Rightarrow> DataFormat" where
  "DetectFormat data =
     (let dataStr = TrimSpace data in
      if (HasPrefix dataStr ''{'' \<and> HasSuffix dataStr ''}'') \<or>
         (HasPrefix dataStr ''['' \<and> HasSuffix dataStr '']'') then FormatJSON
      else if HasPrefix dataStr ''<'' \<and> Contains dataStr ''>'' then FormatXML
      else if Contains dataStr '':'' \<and>
              (Contains dataStr [CHR 0x0A, CHR ''-''] \<or> Contains dataStr ''---'') then FormatYAML
      else if Contains dataStr [CHR 0x09] then FormatTSV
      else FormatCSV)"

text \<open>
  An open file: its bytes, and the error a \<^verbatim>\<open>Read\<close> reports, if the operating system
  reports one. \<^verbatim>\<open>file.Read(buffer)\<close> fills the buffer from the start of the file.
\<close>

record os_file =
  contents :: string
  read_failure :: "string option"

definition file_Read :: "os_file \<Rightarrow> nat \<Rightarrow> string + string" where
  "file_Read file n =
     (case read_failure file of Some err \<Rightarrow> Inl err | None \<Rightarrow> Inr (take n (contents file)))"

text \<open>\<^verbatim>\<open>FlexibleDataHandler.detectFileFormat\<close>.\<close>

definition detectFileFormat :: "string \<Rightarrow> os_file \<Rightarrow> string + DataFormat" where
  "detectFileFormat filePath file =
     (let ext = ToLower (filepath_Ext filePath) in
      if ext = ''.csv'' then Inr FormatCSV
      else if ext = ''.tsv'' then Inr FormatTSV
      else if ext = ''.json'' then Inr FormatJSON
      else if ext = ''.yaml'' \<or> ext = ''.yml'' then Inr FormatYAML
      else if ext = ''.xml'' then Inr FormatXML
      else case file_Read file 1024 of
             Inl err \<Rightarrow> Inl (''failed to read file content: '' @ err)
           | Inr buffer \<Rightarrow> Inr (DetectFormat buffer))"

text \<open>
  The decision order of the specification for trimmed content, in terms of the list
  library: bracket-delimited text is JSON; text beginning with \<open><\<close> and containing \<open>>\<close>
  is XML; text containing a colon and either a line feed followed by \<open>-\<close> or \<open>---\<close> is
  YAML; text containing a tab is TSV; everything else is CSV.
\<close>

definition spec_content_kind :: "string \<Rightarrow> DataFormat" where
  "spec_content_kind s =
     (if (prefix ''{'' s \<and> suffix ''}'' s) \<or> (prefix ''['' s \<and> suffix '']'' s) then FormatJSON
      else if prefix ''<'' s \<and> sublist ''>'' s then FormatXML
      else if sublist '':'' s \<and> (sublist [CHR 0x0A, CHR ''-''] s \<or> sublist ''---'' s)
        then FormatYAML
      else if sublist [CHR 0x09] s then FormatTSV
      else FormatCSV)"

section \<open>Field reconciliation\<close>

text \<open>
  The table \<^verbatim>\<open>columnVariations\<close> of \<^verbatim>\<open>createColumnMapping\<close>. It is a Go map; the order of
  its entries is the order of the source text.
\<close>

definition columnVariations :: "(string \<times> string list) list" where
  "columnVariations =
     [(''transaction_id'', [''transaction_id'', ''id'', ''trans_id'', ''txn_id'', ''transaction'', ''order_id'']),
      (''country'', [''country'', ''nation'', ''country_name'', ''country_code'']),
      (''region'', [''region'', ''state'', ''province'', ''area'', ''zone'', ''territory'']),
      (''product_name'', [''product_name'', ''product'', ''item'', ''item_name'', ''product_title'']),
      (''price'', [''price'', ''unit_price'', ''cost'', ''amount'', ''unit_cost'', ''price_per_unit'']),
      (''quantity'', [''quantity'', ''qty'', ''amount'', ''count'', ''units'', ''number'']),
      (''transaction_date'', [''transaction_date'', ''date'', ''timestamp'', ''time'', ''tx_date'', ''order_date''])]"








text \<open>
  Whether a normalised header token writes the key \<open>k\<close> of the column map: it is \<open>k\<close>
  itself, or \<open>k\<close> is a canonical field and the token is one of its variations.
\<close>

definition token_names :: "string \<Rightarrow> string \<Rightarrow> bool" where
  "token_names k tok \<longleftrightarrow>
     tok = k \<or> (case map_of columnVariations k of None \<Rightarrow> False | Some variations \<Rightarrow> tok \<in> set variations)"


section \<open>Price parsing\<close>

text \<open>The currency symbols of \<^verbatim>\<open>parseFlexiblePrice\<close>, as UTF-8: dollar, euro, pound, yen,
  rupee, ruble, won, shekel, naira, colon, cedi, hryvnia, tenge, peso, dong, rupee sign.\<close>

definition currencySymbols :: "string list" where
  "currencySymbols =
     [''$'', [CHR 0xE2, CHR 0x82, CHR 0xAC], [CHR 0xC2, CHR 0xA3], [CHR 0xC2, CHR 0xA5],
      [CHR 0xE2, CHR 0x82, CHR 0xB9], [CHR 0xE2, CHR 0x82, CHR 0xBD],
      [CHR 0xE2, CHR 0x82, CHR 0xA9], [CHR 0xE2, CHR 0x82, CHR 0xAA],
      [CHR 0xE2, CHR 0x82, CHR 0xA6], [CHR 0xE2, CHR 0x82, CHR 0xA1],
      [CHR 0xE2, CHR 0x82, CHR 0xB5], [CHR 0xE2, CHR 0x82, CHR 0xB4],
      [CHR 0xE2, CHR 0x82, CHR 0xB8], [CHR 0xE2, CHR 0x82, CHR 0xB1],
      [CHR 0xE2, CHR 0x82, CHR 0xAB], [CHR 0xE2, CHR 0x82, CHR 0xA8]]"

fun remove_symbols :: "string \<Rightarrow> string list \<Rightarrow> string" where
  "remove_symbols s [] = s"
| "remove_symbols s (symbol # symbols) = remove_symbols (RemoveAll s symbol) symbols"

text \<open>\<^verbatim>\<open>FormatConverter.parseFlexiblePrice\<close>.\<close>

definition parseFlexiblePrice :: "go_lib \<Rightarrow> TransformConfig \<Rightarrow> string \<Rightarrow> string + int" where
  "parseFlexiblePrice lib config priceStr =
     (let cleanPrice = remove_symbols priceStr currencySymbols;
          cleanPrice = RemoveAll cleanPrice '','';
          cleanPrice = RemoveAll cleanPrice '' '';
          cleanPrice = RemoveAll cleanPrice ''%''
      in case ParseFloat lib cleanPrice of
           Inl err \<Rightarrow> Inl err
         | Inr price \<Rightarrow> Inr (int64_of_float64 (f64_mul price (PriceMultiplier config))))"

text \<open>\<^verbatim>\<open>DataTransformationEngine.cleanString\<close>.\<close>

definition engine_cleanString :: "TransformConfig \<Rightarrow> string \<Rightarrow> string" where
  "engine_cleanString config s =
     (let s = TrimSpace s in if s \<in> set (NullValues config) then [] else s)"

text \<open>\<^verbatim>\<open>DataTransformationEngine.parsePrice\<close>, with its six symbols.\<close>

definition parsePrice :: "go_lib \<Rightarrow> TransformConfig \<Rightarrow> string \<Rightarrow> string + int" where
  "parsePrice lib config priceStr =
     (let priceStr = engine_cleanString config priceStr;
          priceStr = remove_symbols priceStr (take 6 currencySymbols);
          priceStr = RemoveAll priceStr '',''
      in case ParseFloat lib priceStr of
           Inl err \<Rightarrow> Inl err
         | Inr price \<Rightarrow> Inr (int64_of_float64 (f64_mul price (PriceMultiplier config))))"

text \<open>The null values that \<^verbatim>\<open>NewDataTransformationEngine\<close> supplies when the configuration
  has none.\<close>

definition default_NullValues :: "string list" where
  "default_NullValues = [[], ''NULL'', ''null'', ''N/A'', ''n/a'', ''-'']"

text \<open>The three price texts of the specification: with a dollar, a euro and a pound sign.\<close>

definition price_dollar :: string where
  "price_dollar = ''$1,234.56''"

definition price_euro :: string where
  "price_euro = [CHR 0xE2, CHR 0x82, CHR 0xAC] @ ''999.99''"

definition price_pound :: string where
  "price_pound = [CHR 0xC2, CHR 0xA3] @ ''50''"

text \<open>\<^verbatim>\<open>ConfigLoader.getDefaultConfig\<close>.\<close>

definition getDefaultConfig :: TransformConfig where
  "getDefaultConfig =
     \<lparr>EnableValidation = True,
      EnableOptimization = True,
      DateFormats =
        [''2006-01-02T15:04:05Z'', ''2006-01-02'', ''2006-01-02 15:04:05'', ''01/02/2006'',
         ''02-01-2006'', ''2006/01/02'', ''Jan 2, 2006'', ''2 Jan 2006'',
         ''2006-01-02T15:04:05-07:00''],
      CurrencyFormats = [''USD'', ''EUR'', ''GBP'', ''JPY'', ''INR'', ''AUD'', ''CAD''],
      NullValues =
        [[], ''NULL'', ''null'', ''N/A'', ''n/a'', ''NA'', ''na'', ''-'', ''None'', ''none'',
         ''undefined'', ''UNDEFINED''],
      DefaultCountry = [],
      DefaultRegion = [],
      PriceMultiplier = Finite 100,
      CustomMappings = map_of
        [(''usa'', ''United States''), (''us'', ''United States''),
         (''america'', ''United States''), (''uk'', ''United Kingdom''),
         (''britain'', ''United Kingdom''), (''england'', ''United Kingdom''),
         (''region_n'', ''North''), (''region_s'', ''South''), (''region_e'', ''East''),
         (''region_w'', ''West''), (''region_ne'', ''Northeast''),
         (''region_nw'', ''Northwest''), (''region_se'', ''Southeast''),
         (''region_sw'', ''Southwest'')],
      DataTypes = map_of
        [(''transaction_id'', ''string''), (''country'', ''string''), (''region'', ''string''),
         (''product_name'', ''string''), (''price'', ''float''), (''quantity'', ''integer''),
         (''transaction_date'', ''datetime'')]\<rparr>"

section \<open>Date parsing\<close>

text \<open>
  \<^verbatim>\<open>time.Unix(sec, nsec)\<close>: the local time of that instant; nanoseconds outside
  \<open>[0, 10\<^sup>9)\<close> are carried into the seconds.
\<close>

definition time_Unix :: "int \<Rightarrow> int \<Rightarrow> go_time" where
  "time_Unix sec ns =
     \<lparr>unix_sec = sec + ns div 1000000000, nsec = ns mod 1000000000, loc = Local\<rparr>"

text \<open>The loop over a list of layouts: the first layout that \<^verbatim>\<open>time.Parse\<close> accepts decides.\<close>

fun try_formats :: "go_lib \<Rightarrow> string list \<Rightarrow> string \<Rightarrow> go_time option" where
  "try_formats lib [] dateStr = None"
| "try_formats lib (format # formats) dateStr =
     (case time_Parse lib format dateStr of
        Inr date \<Rightarrow> Some date
      | Inl err \<Rightarrow> try_formats lib formats dateStr)"

definition additionalFormats :: "string list" where
  "additionalFormats =
     [''January 2, 2006'', ''Jan 2, 2006 15:04:05'', ''2006-01-02T15:04:05.000Z'',
      ''2006-01-02T15:04:05.000000Z'', ''Mon Jan 2 15:04:05 MST 2006'',
      ''Mon, 02 Jan 2006 15:04:05 MST'']"

text \<open>
  \<^verbatim>\<open>FormatConverter.parseFlexibleDate\<close>. In the branch for milliseconds the timestamp is
  positive, where Go's truncating \<^verbatim>\<open>/\<close> and \<^verbatim>\<open>%\<close> are \<open>div\<close> and \<open>mod\<close>.
\<close>

definition parseFlexibleDate :: "go_lib \<Rightarrow> TransformConfig \<Rightarrow> string \<Rightarrow> string + go_time" where
  "parseFlexibleDate lib config dateStr =
     (case try_formats lib (DateFormats config) dateStr of
        Some date \<Rightarrow> Inr date
      | None \<Rightarrow>
     (case try_formats lib additionalFormats dateStr of
        Some date \<Rightarrow> Inr date
      | None \<Rightarrow>
     (case ParseInt dateStr of
        Inr timestamp \<Rightarrow>
          (if timestamp > 10000000000
           then Inr (time_Unix (timestamp div 1000) ((timestamp mod 1000) * 1000000))
           else Inr (time_Unix timestamp 0))
      | Inl err \<Rightarrow> Inl ''unable to parse date format'')))"


text \<open>\<^verbatim>\<open>DateNormalization.Transform\<close>.\<close>

definition DateNormalization_Transform :: "transaction \<Rightarrow> transaction" where
  "DateNormalization_Transform tx =
     (if \<not> IsZero (TxTime tx) then tx\<lparr>TxTime := to_UTC (TxTime tx)\<rparr> else tx)"

section \<open>Optimizations\<close>

subsection \<open>DuplicateRemoval\<close>

text \<open>
  The loop of \<^verbatim>\<open>DuplicateRemoval.Optimize\<close>: \<open>seen\<close> is the map of identifiers met so
  far, \<open>unique\<close> the slice being appended to.
\<close>

fun DuplicateRemoval_loop ::
  "bool_map \<Rightarrow> transaction list \<Rightarrow> transaction list \<Rightarrow> transaction list" where
  "DuplicateRemoval_loop seen unique [] = unique"
| "DuplicateRemoval_loop seen unique (tx # txs) =
     (if \<not> lookup_bool seen (ID tx)
      then DuplicateRemoval_loop (seen(ID tx \<mapsto> True)) (unique @ [tx]) txs
      else DuplicateRemoval_loop seen unique txs)"

definition DuplicateRemoval_Optimize :: "transaction list \<Rightarrow> transaction list" where
  "DuplicateRemoval_Optimize transactions = DuplicateRemoval_loop Map.empty [] transactions"

text \<open>
  A loop of this shape, for any key function: the records whose key is neither in \<open>S\<close>
  nor carried by an earlier record.
\<close>

fun first_per_key :: "('a \<Rightarrow> 'k) \<Rightarrow> 'k set \<Rightarrow> 'a list \<Rightarrow> 'a list" where
  "first_per_key key S [] = []"
| "first_per_key key S (x # xs) =
     (if key x \<in> S then first_per_key key S xs
      else x # first_per_key key (insert (key x) S) xs)"

subsection \<open>DataDeduplication\<close>

text \<open>\<^verbatim>\<open>fmt.Sprintf("%d", n)\<close> for an integer: decimal digits, with a minus sign when negative.\<close>

definition digit_char :: "int \<Rightarrow> char" where
  "digit_char d = ''0123456789'' ! nat d"

function decimal_digits :: "int \<Rightarrow> string" where
  "decimal_digits n =
     (if n < 10 then [digit_char n] else decimal_digits (n div 10) @ [digit_char (n mod 10)])"
  by pat_completeness auto
termination
  by (relation "measure nat") auto

declare decimal_digits.simps [simp del]

definition Sprintf_d :: "int \<Rightarrow> string" where
  "Sprintf_d i = (if i < 0 then CHR ''-'' # decimal_digits (- i) else decimal_digits i)"

text \<open>
  The composite key of \<^verbatim>\<open>DataDeduplication.Optimize\<close>:
  \<^verbatim>\<open>fmt.Sprintf("%s:%s:%s:%s:%d:%d:%d", tx.ID, tx.Country, tx.Region, tx.ProductName,
  tx.UnitPriceCents, tx.Quantity, tx.TxTime.Unix())\<close>.
\<close>

definition composite_key :: "transaction \<Rightarrow> string" where
  "composite_key tx =
     ID tx @ '':'' @ Country tx @ '':'' @ Region tx @ '':'' @ ProductName tx @ '':'' @
     Sprintf_d (UnitPriceCents tx) @ '':'' @ Sprintf_d (Quantity tx) @ '':'' @
     Sprintf_d (Unix (TxTime tx))"

fun DataDeduplication_loop ::
  "bool_map \<Rightarrow> transaction list \<Rightarrow> transaction list \<Rightarrow> transaction list" where
  "DataDeduplication_loop seen unique [] = unique"
| "DataDeduplication_loop seen unique (tx # txs) =
     (let key = composite_key tx in
      if \<not> lookup_bool seen key
      then DataDeduplication_loop (seen(key \<mapsto> True)) (unique @ [tx]) txs
      else DataDeduplication_loop seen unique txs)"

definition DataDeduplication_Optimize :: "transaction list \<Rightarrow> transaction list" where
  "DataDeduplication_Optimize transactions = DataDeduplication_loop Map.empty [] transactions"

subsection \<open>IndexOptimization\<close>

definition IndexOptimization_Optimize :: "transaction list \<Rightarrow> transaction list" where
  "IndexOptimization_Optimize transactions = transactions"

subsection \<open>The \<^verbatim>\<open>Optimization\<close> interface and the engine's optimization pass\<close>

datatype optimization = DuplicateRemoval | DataDeduplication | IndexOptimization

fun optimization_Name :: "optimization \<Rightarrow> string" where
  "optimization_Name DuplicateRemoval = ''DuplicateRemoval''"
| "optimization_Name DataDeduplication = ''DataDeduplication''"
| "optimization_Name IndexOptimization = ''IndexOptimization''"

text \<open>\<^verbatim>\<open>Optimize\<close> returns a value and an error; none of the three stages ever returns one.\<close>

fun Optimize :: "optimization \<Rightarrow> transaction list \<Rightarrow> string + transaction list" where
  "Optimize DuplicateRemoval txs = Inr (DuplicateRemoval_Optimize txs)"
| "Optimize DataDeduplication txs = Inr (DataDeduplication_Optimize txs)"
| "Optimize IndexOptimization txs = Inr (IndexOptimization_Optimize txs)"

text \<open>The optimizations registered by \<^verbatim>\<open>NewDataTransformationEngine\<close>, in order.\<close>

definition default_optimizations :: "optimization list" where
  "default_optimizations = [DuplicateRemoval, DataDeduplication, IndexOptimization]"

text \<open>
  \<^verbatim>\<open>optimizeData\<close> / \<^verbatim>\<open>optimizeTransactions\<close>: the stages run in sequence, each on the
  output of the one before; the first error aborts the pass.
\<close>

fun optimize_loop :: "optimization list \<Rightarrow> transaction list \<Rightarrow> string + transaction list" where
  "optimize_loop [] txs = Inr txs"
| "optimize_loop (opt # opts) txs =
     (case Optimize opt txs of
        Inl err \<Rightarrow> Inl (''optimization '' @ optimization_Name opt @ '' failed: '' @ err)
      | Inr optimized \<Rightarrow> optimize_loop opts optimized)"

text \<open>Two records with different identifiers and the same composite key.\<close>

definition tx_colon_in_ID :: transaction where
  "tx_colon_in_ID =
     \<lparr>ID = ''TX1:A'', Country = ''B'', Region = ''North'', ProductName = ''Widget'',
      UnitPriceCents = 1599, Quantity = 2,
      TxTime = \<lparr>unix_sec = 1710503445, nsec = 0, loc = UTC\<rparr>\<rparr>"

definition tx_colon_in_Country :: transaction where
  "tx_colon_in_Country =
     \<lparr>ID = ''TX1'', Country = ''A:B'', Region = ''North'', ProductName = ''Widget'',
      UnitPriceCents = 1599, Quantity = 2,
      TxTime = \<lparr>unix_sec = 1710503445, nsec = 0, loc = UTC\<rparr>\<rparr>"


section \<open>Pipeline stages\<close>

subsection \<open>Transformations\<close>














text \<open>
  The \<^verbatim>\<open>Transformation\<close> interface: each stage is an object that holds the configuration
  it was built with.
\<close>

datatype transformation =
    CurrencyNormalization TransformConfig
  | DateNormalization TransformConfig
  | StringCleaning TransformConfig
  | CountryMapping TransformConfig
  | RegionMapping TransformConfig
  | ProductNameNormalization TransformConfig



subsection \<open>Validators\<close>









text \<open>
  The \<^verbatim>\<open>Validator\<close> interface. A uniqueness validator is an object with a state, the
  identifiers it has seen; \<^verbatim>\<open>Validate\<close> returns the failure, if any, and the object as the
  call leaves it.
\<close>

datatype validator =
    RequiredFieldValidator
  | DataTypeValidator TransformConfig
  | RangeValidator
  | UniquenessValidator bool_map



section \<open>Quality scorer\<close>

text \<open>
  \<^verbatim>\<open>DataQualityMetrics\<close>. The \<^verbatim>\<open>float64\<close> scores are kept as the exact rationals the
  quotients denote; rounding is not modelled. A \<^verbatim>\<open>nil\<close> map reads like an empty one.
\<close>

record DataQualityMetrics =
  Completeness :: rat
  Consistency :: rat
  Validity :: rat
  Uniqueness :: rat
  FieldMetrics :: "string \<rightharpoonup> rat"

text \<open>The zero value \<^verbatim>\<open>DataQualityMetrics{}\<close>.\<close>

definition zero_metrics :: DataQualityMetrics where
  "zero_metrics =
     \<lparr>Completeness = 0, Consistency = 0, Validity = 0, Uniqueness = 0, FieldMetrics = Map.empty\<rparr>"


text \<open>
  A \<^verbatim>\<open>float64\<close> quotient. Go yields NaN or an infinity for a zero divisor; the rationals
  have neither, so that case is \<open>None\<close>.
\<close>

definition float_div :: "rat \<Rightarrow> rat \<Rightarrow> rat option" where
  "float_div a b = (if b = 0 then None else Some (a / b))"

text \<open>\<^verbatim>\<open>completenessScores[k]++\<close> on a \<^verbatim>\<open>map[string]int\<close>.\<close>

definition incr :: "(string \<rightharpoonup> int) \<Rightarrow> string \<Rightarrow> (string \<rightharpoonup> int)" where
  "incr m k = m(k \<mapsto> (case m k of None \<Rightarrow> 0 | Some c \<Rightarrow> c) + 1)"

definition incr_if :: "bool \<Rightarrow> string \<Rightarrow> (string \<rightharpoonup> int) \<Rightarrow> (string \<rightharpoonup> int)" where
  "incr_if b k m = (if b then incr m k else m)"

text \<open>The body of the completeness loop, for one record.\<close>

definition score_record :: "transaction \<Rightarrow> (string \<rightharpoonup> int) \<Rightarrow> (string \<rightharpoonup> int)" where
  "score_record tx scores =
     incr_if (\<not> IsZero (TxTime tx)) ''date''
       (incr_if (Quantity tx > 0) ''quantity''
         (incr_if (UnitPriceCents tx > 0) ''price''
           (incr_if (ProductName tx \<noteq> []) ''product_name''
             (incr_if (Region tx \<noteq> []) ''region''
               (incr_if (Country tx \<noteq> []) ''country''
                 (incr_if (ID tx \<noteq> []) ''id'' scores))))))"

fun score_records :: "(string \<rightharpoonup> int) \<Rightarrow> transaction list \<Rightarrow> (string \<rightharpoonup> int)" where
  "score_records scores [] = scores"
| "score_records scores (tx # txs) = score_records (score_record tx scores) txs"

text \<open>
  The keys \<^verbatim>\<open>completenessScores\<close> can hold. Go ranges over a map in an unspecified
  order; the loop below visits the keys present in this order. Each key writes its own
  entry of \<^verbatim>\<open>FieldMetrics\<close> and the exact sum does not depend on the order.
\<close>

definition score_keys :: "string list" where
  "score_keys = [''id'', ''country'', ''region'', ''product_name'', ''price'', ''quantity'', ''date'']"

fun range_scores ::
  "(string \<rightharpoonup> int) \<Rightarrow> nat \<Rightarrow> string list \<Rightarrow> (string \<rightharpoonup> rat) \<Rightarrow> rat \<Rightarrow>
     ((string \<rightharpoonup> rat) \<times> rat) option" where
  "range_scores scores n [] fm acc = Some (fm, acc)"
| "range_scores scores n (field # rest) fm acc =
     (case scores field of
        None \<Rightarrow> range_scores scores n rest fm acc
      | Some count \<Rightarrow>
          (case float_div (of_int count) (of_nat n) of
             None \<Rightarrow> None
           | Some completeness \<Rightarrow>
               range_scores scores n rest
                 (fm(field @ ''_completeness'' \<mapsto> completeness)) (acc + completeness)))"

definition calculateDataQuality :: "transaction list \<Rightarrow> DataQualityMetrics option" where
  "calculateDataQuality transactions =
     (if length transactions = 0 then Some zero_metrics
      else
        let n = length transactions;
            completenessScores = score_records Map.empty transactions;
            totalFields = (7 :: nat)
        in case range_scores completenessScores n score_keys Map.empty 0 of
             None \<Rightarrow> None
           | Some (fieldMetrics, totalCompleteness) \<Rightarrow>
        (case float_div totalCompleteness (of_nat totalFields) of
             None \<Rightarrow> None
           | Some completeness \<Rightarrow>
        (case float_div (of_nat (card (ID ` set transactions))) (of_nat n) of
             None \<Rightarrow> None
           | Some uniqueness \<Rightarrow>
        (case float_div
                (of_nat (length (filter (\<lambda>tx. UnitPriceCents tx \<ge> 0 \<and> Quantity tx \<ge> 0) transactions)))
                (of_nat n) of
             None \<Rightarrow> None
           | Some validity \<Rightarrow>
               Some \<lparr>Completeness = completeness, Consistency = 95 / 100, Validity = validity,
                     Uniqueness = uniqueness, FieldMetrics = fieldMetrics\<rparr>))))"

text \<open>A record with every field present except the region.\<close>

definition tx_no_region :: transaction where
  "tx_no_region =
     \<lparr>ID = ''TX1'', Country = ''Canada'', Region = [], ProductName = ''Widget'',
      UnitPriceCents = 1599, Quantity = 2,
      TxTime = \<lparr>unix_sec = 1710503445, nsec = 0, loc = UTC\<rparr>\<rparr>"

section \<open>Engine\<close>

text \<open>\<^verbatim>\<open>DataTransformationEngine\<close> and \<^verbatim>\<open>NewDataTransformationEngine\<close>. The stages are built
  with the configuration as given; the defaults are filled in for the engine's own copy.\<close>

record DataTransformationEngine =
  e_transformations :: "transformation list"
  e_validators :: "validator list"
  e_optimizations :: "optimization list"
  e_config :: TransformConfig

definition NewDataTransformationEngine :: "TransformConfig \<Rightarrow> DataTransformationEngine" where
  "NewDataTransformationEngine config =
     \<lparr>e_transformations =
        [CurrencyNormalization config, DateNormalization config, StringCleaning config,
         CountryMapping config, RegionMapping config, ProductNameNormalization config],
      e_validators =
        [RequiredFieldValidator, DataTypeValidator config, RangeValidator,
         UniquenessValidator Map.empty],
      e_optimizations = default_optimizations,
      e_config = config
        \<lparr>DateFormats :=
           (if length (DateFormats config) = 0
            then [''2006-01-02T15:04:05Z07:00'', ''2006-01-02'', ''2006-01-02 15:04:05'',
                  ''01/02/2006'', ''02-01-2006'', ''2006/01/02'']
            else DateFormats config),
         NullValues :=
           (if length (NullValues config) = 0 then default_NullValues else NullValues config),
         PriceMultiplier :=
           (if PriceMultiplier config = Finite 0 then Finite 100 else PriceMultiplier config)\<rparr>\<rparr>"


section \<open>Format converter\<close>

subsection \<open>Delimited text\<close>






subsection \<open>Decoded objects\<close>














section \<open>Orchestrator\<close>

text \<open>\<^verbatim>\<open>FlexibleDataHandler\<close> and \<^verbatim>\<open>NewFlexibleDataHandler\<close>; the converter is its
  configuration.\<close>

record FlexibleDataHandler =
  h_engine :: DataTransformationEngine
  h_converter :: TransformConfig
  h_config :: TransformConfig

definition NewFlexibleDataHandler :: "TransformConfig \<Rightarrow> FlexibleDataHandler" where
  "NewFlexibleDataHandler config =
     \<lparr>h_engine = NewDataTransformationEngine config, h_converter = config, h_config = config\<rparr>"





section \<open>The engine's own path for delimited text\<close>


















text \<open>The records among the results of a reader.\<close>

fun records_read :: "(string + string list) list \<Rightarrow> string list list" where
  "records_read [] = []"
| "records_read (Inl err # reads) = records_read reads"
| "records_read (Inr row # reads) = row # records_read reads"

text \<open>The values and the errors of a list of outcomes, in order.\<close>

fun successes :: "('e + 'a) list \<Rightarrow> 'a list" where
  "successes [] = []"
| "successes (Inl err # outcomes) = successes outcomes"
| "successes (Inr x # outcomes) = x # successes outcomes"

fun failures :: "('e + 'a) list \<Rightarrow> 'e list" where
  "failures [] = []"
| "failures (Inl err # outcomes) = err # failures outcomes"
| "failures (Inr x # outcomes) = failures outcomes"

text \<open>
  Two files of delimited text. In the first the second record has no identifier. In the
  second the first record has no identifier and the third repeats the identifier of the
  second.
\<close>

definition sales_csv :: string where
  "sales_csv =
     ''transaction_id,product_name,price,transaction_date'' @ [CHR 0x0A] @
     ''TX1,Widget,10.00,2024-03-15'' @ [CHR 0x0A] @
     '',Gadget,12.50,2024-03-15'' @ [CHR 0x0A]"

definition orders_csv :: string where
  "orders_csv =
     ''transaction_id,country,region,product_name,price,quantity,transaction_date'' @ [CHR 0x0A] @
     '',Canada,West,Widget,10.00,1,2024-03-15'' @ [CHR 0x0A] @
     ''TX7,Canada,West,Widget,10.00,1,2024-03-15'' @ [CHR 0x0A] @
     ''TX7,Canada,West,Gadget,12.50,2,2024-03-15'' @ [CHR 0x0A]"

text \<open>A file system that holds the first file under the name \<open>sales.csv\<close>.\<close>

definition sales_fs :: "string \<Rightarrow> string + os_file" where
  "sales_fs path =
     (if path = ''sales.csv'' then Inr \<lparr>contents = sales_csv, read_failure = None\<rparr>
      else Inl ''no such file or directory'')"

section \<open>Properties of the optimizations\<close>

lemma DuplicateRemoval_loop_eq:
  "DuplicateRemoval_loop seen unique txs =
     unique @ first_per_key ID {k. lookup_bool seen k} txs"
proof (induction txs arbitrary: seen unique)
  case Nil
  show ?case by simp
next
  case (Cons tx txs)
  have upd: "{k. lookup_bool (seen(ID tx \<mapsto> True)) k} = insert (ID tx) {k. lookup_bool seen k}"
    by (auto simp: lookup_bool_def)
  show ?case
  proof (cases "lookup_bool seen (ID tx)")
    case True
    then show ?thesis by (simp add: Cons.IH)
  next
    case False
    have "DuplicateRemoval_loop seen unique (tx # txs) =
            DuplicateRemoval_loop (seen(ID tx \<mapsto> True)) (unique @ [tx]) txs"
      using False by simp
    also have "\<dots> = (unique @ [tx]) @
            first_per_key ID {k. lookup_bool (seen(ID tx \<mapsto> True)) k} txs"
      by (rule Cons.IH)
    also have "\<dots> = unique @ first_per_key ID {k. lookup_bool seen k} (tx # txs)"
      using False by (simp only: upd) simp
    finally show ?thesis .
  qed
qed

lemma DuplicateRemoval_Optimize_eq:
  "DuplicateRemoval_Optimize txs = first_per_key ID {} txs"
  by (simp add: DuplicateRemoval_Optimize_def DuplicateRemoval_loop_eq lookup_bool_def)

lemma first_per_key_subseq: "subseq (first_per_key key S xs) xs"
  by (induction xs arbitrary: S) auto

lemma first_per_key_keys:
  "key ` set (first_per_key key S xs) = key ` set xs - S"
  by (induction xs arbitrary: S) auto

lemma first_per_key_distinct: "distinct (map key (first_per_key key S xs))"
proof (induction xs arbitrary: S)
  case Nil
  show ?case by simp
next
  case (Cons x xs)
  have "key x \<notin> key ` set (first_per_key key (insert (key x) S) xs)"
    by (simp add: first_per_key_keys)
  with Cons.IH show ?case by simp
qed

lemma first_per_key_find:
  "find (\<lambda>x. key x = k) (first_per_key key S xs) =
     (if k \<in> S then None else find (\<lambda>x. key x = k) xs)"
proof (induction xs arbitrary: S)
  case Nil
  show ?case by simp
next
  case (Cons x xs)
  show ?case
    by (auto simp: Cons.IH)
qed

text \<open>
  C7. For every transaction list, \<^verbatim>\<open>DuplicateRemoval.Optimize\<close> returns a subsequence of
  its input (the survivors keep their relative order) in which no identifier occurs
  twice, and for each identifier the record it holds is the first record of the input
  with that identifier (none if the input has none).
\<close>

theorem DuplicateRemoval_keeps_first:
  "subseq (DuplicateRemoval_Optimize txs) txs \<and>
   distinct (map ID (DuplicateRemoval_Optimize txs)) \<and>
   (\<forall>i. find (\<lambda>t. ID t = i) (DuplicateRemoval_Optimize txs) = find (\<lambda>t. ID t = i) txs)"
  by (simp add: DuplicateRemoval_Optimize_eq first_per_key_subseq first_per_key_distinct
      first_per_key_find)

lemma DataDeduplication_loop_eq:
  "DataDeduplication_loop seen unique txs =
     unique @ first_per_key composite_key {k. lookup_bool seen k} txs"
proof (induction txs arbitrary: seen unique)
  case Nil
  show ?case by simp
next
  case (Cons tx txs)
  let ?k = "composite_key tx"
  have upd: "{k. lookup_bool (seen(?k \<mapsto> True)) k} = insert ?k {k. lookup_bool seen k}"
    by (auto simp: lookup_bool_def)
  show ?case
  proof (cases "lookup_bool seen ?k")
    case True
    then show ?thesis by (simp add: Cons.IH)
  next
    case False
    have "DataDeduplication_loop seen unique (tx # txs) =
            DataDeduplication_loop (seen(?k \<mapsto> True)) (unique @ [tx]) txs"
      using False by (simp add: Let_def)
    also have "\<dots> = (unique @ [tx]) @
            first_per_key composite_key {k. lookup_bool (seen(?k \<mapsto> True)) k} txs"
      by (rule Cons.IH)
    also have "\<dots> = unique @ first_per_key composite_key {k. lookup_bool seen k} (tx # txs)"
      using False by (simp only: upd) simp
    finally show ?thesis .
  qed
qed

lemma DataDeduplication_Optimize_eq:
  "DataDeduplication_Optimize txs = first_per_key composite_key {} txs"
  by (simp add: DataDeduplication_Optimize_def DataDeduplication_loop_eq lookup_bool_def)

lemma first_per_key_subset: "set (first_per_key key S xs) \<subseteq> set xs"
  by (induction xs arbitrary: S) auto

lemma first_per_key_unchanged:
  "distinct (map key xs) \<Longrightarrow> key ` set xs \<inter> S = {} \<Longrightarrow> first_per_key key S xs = xs"
proof (induction xs arbitrary: S)
  case Nil
  show ?case by simp
next
  case (Cons x xs)
  from Cons.prems have "key ` set xs \<inter> insert (key x) S = {}" by auto
  with Cons.prems Cons.IH [of "insert (key x) S"] show ?case by auto
qed

text \<open>
  The composite-key pass leaves the output of the identifier pass alone whenever records
  with different identifiers have different composite keys.
\<close>

lemma DataDeduplication_after_DuplicateRemoval:
  assumes "\<forall>x \<in> set txs. \<forall>y \<in> set txs. composite_key x = composite_key y \<longrightarrow> ID x = ID y"
  shows "DataDeduplication_Optimize (DuplicateRemoval_Optimize txs) = DuplicateRemoval_Optimize txs"
proof -
  let ?ys = "first_per_key ID {} txs"
  have sub: "set ?ys \<subseteq> set txs"
    by (rule first_per_key_subset)
  have dist: "distinct (map ID ?ys)"
    by (rule first_per_key_distinct)
  have "inj_on composite_key (set ?ys)"
  proof (rule inj_onI)
    fix x y
    assume x: "x \<in> set ?ys" and y: "y \<in> set ?ys" and k: "composite_key x = composite_key y"
    from x y sub have "x \<in> set txs" "y \<in> set txs" by auto
    with assms k have "ID x = ID y" by blast
    with dist x y show "x = y"
      by (meson distinct_map inj_onD)
  qed
  moreover from dist have "distinct ?ys"
    by (simp add: distinct_map)
  ultimately have "distinct (map composite_key ?ys)"
    by (simp add: distinct_map)
  then have "first_per_key composite_key {} ?ys = ?ys"
    by (rule first_per_key_unchanged) simp
  then show ?thesis
    by (simp add: DataDeduplication_Optimize_eq DuplicateRemoval_Optimize_eq)
qed

text \<open>
  C10. The claim that \<^verbatim>\<open>DataDeduplication.Optimize\<close> returns the output of
  \<^verbatim>\<open>DuplicateRemoval.Optimize\<close> unchanged fails on the code: the composite key joins the
  fields with \<open>:\<close> and does not escape a \<open>:\<close> inside a field, so two records with
  different identifiers can have the same key. On the two records below the identifier
  pass keeps both, and the composite-key pass (alone, and inside the registered sequence
  DuplicateRemoval, DataDeduplication, IndexOptimization) drops the second.
\<close>

theorem DataDeduplication_drops_distinct_ID:
  "ID tx_colon_in_ID \<noteq> ID tx_colon_in_Country \<and>
   composite_key tx_colon_in_ID = composite_key tx_colon_in_Country \<and>
   DuplicateRemoval_Optimize [tx_colon_in_ID, tx_colon_in_Country] =
     [tx_colon_in_ID, tx_colon_in_Country] \<and>
   DataDeduplication_Optimize (DuplicateRemoval_Optimize [tx_colon_in_ID, tx_colon_in_Country]) =
     [tx_colon_in_ID] \<and>
   optimize_loop default_optimizations [tx_colon_in_ID, tx_colon_in_Country] =
     Inr [tx_colon_in_ID]"
  by code_simp

section \<open>Properties of the quality scorer\<close>






lemma range_scores_result:
  assumes "n \<noteq> 0"
  shows "\<exists>fm'. range_scores scores n ks fm acc =
           Some (fm', acc + (\<Sum>k\<leftarrow>ks. case scores k of None \<Rightarrow> 0 | Some c \<Rightarrow> of_int c / of_nat n)) \<and>
         (\<forall>k. k \<notin> set ks \<longrightarrow> fm' (k @ ''_completeness'') = fm (k @ ''_completeness'')) \<and>
         (distinct ks \<longrightarrow> (\<forall>k \<in> set ks. fm' (k @ ''_completeness'') =
            (case scores k of None \<Rightarrow> fm (k @ ''_completeness'')
             | Some c \<Rightarrow> Some (of_int c / of_nat n))))"
proof (induction ks arbitrary: fm acc)
  case Nil
  show ?case by simp
next
  case (Cons f rest)
  show ?case
  proof (cases "scores f")
    case None
    from Cons.IH [of fm acc] obtain fm' where
      "range_scores scores n rest fm acc =
           Some (fm', acc + (\<Sum>k\<leftarrow>rest. case scores k of None \<Rightarrow> 0 | Some c \<Rightarrow> of_int c / of_nat n))"
      "\<forall>k. k \<notin> set rest \<longrightarrow> fm' (k @ ''_completeness'') = fm (k @ ''_completeness'')"
      "distinct rest \<longrightarrow> (\<forall>k \<in> set rest. fm' (k @ ''_completeness'') =
            (case scores k of None \<Rightarrow> fm (k @ ''_completeness'')
             | Some c \<Rightarrow> Some (of_int c / of_nat n)))"
      by blast
    with None show ?thesis
      by (intro exI [of _ fm']) auto
  next
    case (Some c0)
    let ?fm = "fm(f @ ''_completeness'' \<mapsto> of_int c0 / of_nat n)"
    from Cons.IH [of ?fm "acc + of_int c0 / of_nat n"] obtain fm' where
      "range_scores scores n rest ?fm (acc + of_int c0 / of_nat n) =
           Some (fm', acc + of_int c0 / of_nat n + (\<Sum>k\<leftarrow>rest. case scores k of None \<Rightarrow> 0 | Some c \<Rightarrow> of_int c / of_nat n))"
      "\<forall>k. k \<notin> set rest \<longrightarrow> fm' (k @ ''_completeness'') = ?fm (k @ ''_completeness'')"
      "distinct rest \<longrightarrow> (\<forall>k \<in> set rest. fm' (k @ ''_completeness'') =
            (case scores k of None \<Rightarrow> ?fm (k @ ''_completeness'')
             | Some c \<Rightarrow> Some (of_int c / of_nat n)))"
      by blast
    with Some assms show ?thesis
      by (intro exI [of _ fm']) (auto simp: float_div_def split: option.splits)
  qed
qed


lemma score_keys_distinct: "distinct score_keys"
  by (simp add: score_keys_def)

lemma calculateDataQuality_nonempty:
  assumes "txs \<noteq> []"
  shows "\<exists>fm. calculateDataQuality txs =
     Some \<lparr>Completeness =
              (\<Sum>k\<leftarrow>score_keys. case score_records Map.empty txs k of None \<Rightarrow> 0
                   | Some c \<Rightarrow> of_int c / of_nat (length txs)) / 7,
            Consistency = 95 / 100,
            Validity = of_nat (length (filter (\<lambda>tx. UnitPriceCents tx \<ge> 0 \<and> Quantity tx \<ge> 0) txs)) /
                         of_nat (length txs),
            Uniqueness = of_nat (card (ID ` set txs)) / of_nat (length txs),
            FieldMetrics = fm\<rparr> \<and>
     (\<forall>k \<in> set score_keys. fm (k @ ''_completeness'') =
        (case score_records Map.empty txs k of None \<Rightarrow> None
         | Some c \<Rightarrow> Some (of_int c / of_nat (length txs))))"
proof -
  from assms have n: "length txs \<noteq> 0" by simp
  from range_scores_result [OF n, of "score_records Map.empty txs" score_keys Map.empty 0]
  obtain fm where
    r: "range_scores (score_records Map.empty txs) (length txs) score_keys Map.empty 0 =
         Some (fm, 0 + (\<Sum>k\<leftarrow>score_keys. case score_records Map.empty txs k of None \<Rightarrow> 0
                   | Some c \<Rightarrow> of_int c / of_nat (length txs)))"
    and d: "distinct score_keys \<longrightarrow> (\<forall>k \<in> set score_keys. fm (k @ ''_completeness'') =
            (case score_records Map.empty txs k of None \<Rightarrow> Map.empty (k @ ''_completeness'')
             | Some c \<Rightarrow> Some (of_int c / of_nat (length txs))))"
    by blast
  from d score_keys_distinct have d': "\<forall>k \<in> set score_keys. fm (k @ ''_completeness'') =
        (case score_records Map.empty txs k of None \<Rightarrow> None
         | Some c \<Rightarrow> Some (of_int c / of_nat (length txs)))"
    by simp
  show ?thesis
    using n r d' by (intro exI [of _ fm]) (simp add: calculateDataQuality_def float_div_def Let_def)
qed


text \<open>
  C8. The quality scorer applied to an empty record set returns the all-zero metrics, and
  on no record set does any of its quotients have a zero divisor: the scorer returns
  metrics for every input.
\<close>

theorem quality_of_empty_set:
  "calculateDataQuality [] = Some zero_metrics \<and> (\<forall>txs. \<exists>m. calculateDataQuality txs = Some m)"
proof
  show "calculateDataQuality [] = Some zero_metrics"
    by (simp add: calculateDataQuality_def)
  show "\<forall>txs. \<exists>m. calculateDataQuality txs = Some m"
  proof
    fix txs
    show "\<exists>m. calculateDataQuality txs = Some m"
    proof (cases "txs = []")
      case True
      then show ?thesis by (simp add: calculateDataQuality_def)
    next
      case False
      from calculateDataQuality_nonempty [OF False] show ?thesis by blast
    qed
  qed
qed



section \<open>Properties of format detection\<close>

lemma HasPrefix_iff: "HasPrefix s p \<longleftrightarrow> prefix p s"
  unfolding HasPrefix_def prefix_def
  by (metis append_eq_conv_conj append_take_drop_id length_append le_add1)

lemma HasSuffix_iff: "HasSuffix s p \<longleftrightarrow> suffix p s"
proof
  assume "HasSuffix s p"
  then have "s = take (length s - length p) s @ p"
    unfolding HasSuffix_def by (metis append_take_drop_id)
  then show "suffix p s" unfolding suffix_def by blast
next
  assume "suffix p s"
  then obtain zs where "s = zs @ p" unfolding suffix_def by blast
  then show "HasSuffix s p" by (simp add: HasSuffix_def)
qed

lemma Contains_iff: "Contains s sub \<longleftrightarrow> sublist sub s"
  by (induction s) (auto simp: HasPrefix_iff sublist_Cons_right)

lemma DetectFormat_spec: "DetectFormat data = spec_content_kind (TrimSpace data)"
  by (simp add: DetectFormat_def spec_content_kind_def Let_def HasPrefix_iff HasSuffix_iff Contains_iff)

text \<open>
  C2, as the code has it. Detection from a buffer alone is a total function that classifies
  the trimmed buffer in the order JSON, XML, YAML, TSV, CSV. Detection for a file trusts
  the lower-cased extension first, and the trusted extensions are \<open>.csv\<close>, \<open>.tsv\<close>,
  \<open>.json\<close>, \<open>.yaml\<close>, \<open>.yml\<close> and also \<open>.xml\<close>; for any other extension it reads
  the first 1024 bytes, returns an error if the read fails, and otherwise classifies the
  trimmed bytes in the same order.
\<close>

theorem format_detection_order:
  "DetectFormat data = spec_content_kind (TrimSpace data) \<and>
   detectFileFormat path file =
     (let ext = ToLower (filepath_Ext path) in
      if ext = ''.csv'' then Inr FormatCSV
      else if ext = ''.tsv'' then Inr FormatTSV
      else if ext = ''.json'' then Inr FormatJSON
      else if ext = ''.yaml'' \<or> ext = ''.yml'' then Inr FormatYAML
      else if ext = ''.xml'' then Inr FormatXML
      else case read_failure file of
             Some err \<Rightarrow> Inl (''failed to read file content: '' @ err)
           | None \<Rightarrow> Inr (spec_content_kind (TrimSpace (take 1024 (contents file)))))"
  by (simp add: DetectFormat_spec detectFileFormat_def file_Read_def Let_def split: option.splits)

text \<open>
  C2 as stated fails: \<open>.xml\<close> is not among the five extensions it lists, so the content
  \<open>id,price\<close> should be classified as CSV, but the file \<open>sales.xml\<close> is reported as XML.
\<close>

theorem xml_extension_counterexample:
  "ToLower (filepath_Ext ''sales.xml'') \<noteq> ''.csv'' \<and>
   ToLower (filepath_Ext ''sales.xml'') \<noteq> ''.tsv'' \<and>
   ToLower (filepath_Ext ''sales.xml'') \<noteq> ''.json'' \<and>
   ToLower (filepath_Ext ''sales.xml'') \<noteq> ''.yaml'' \<and>
   ToLower (filepath_Ext ''sales.xml'') \<noteq> ''.yml'' \<and>
   DetectFormat ''id,price'' = FormatCSV \<and>
   detectFileFormat ''sales.xml'' \<lparr>contents = ''id,price'', read_failure = None\<rparr> = Inr FormatXML"
  by code_simp

section \<open>Properties of field reconciliation\<close>











text \<open>A token that is no variation of any canonical field writes only its own key.\<close>

lemma unmatched_header_no_canonical_effect:
  assumes "\<forall>e \<in> set columnVariations. tok \<notin> set (snd e)"
  shows "token_names k tok \<longleftrightarrow> k = tok"
proof -
  have "tok \<notin> set vs" if "map_of columnVariations k = Some vs" for vs
    using assms map_of_SomeD [OF that] by fastforce
  then show ?thesis
    by (auto simp: token_names_def split: option.splits)
qed


section \<open>Properties of price parsing\<close>

lemma strip_dollar:
  "RemoveAll (RemoveAll (RemoveAll (remove_symbols price_dollar currencySymbols) '','') '' '') ''%'' = ''1234.56''"
  by code_simp

lemma strip_euro:
  "RemoveAll (RemoveAll (RemoveAll (remove_symbols price_euro currencySymbols) '','') '' '') ''%'' = ''999.99''"
  by code_simp

lemma strip_pound:
  "RemoveAll (RemoveAll (RemoveAll (remove_symbols price_pound currencySymbols) '','') '' '') ''%'' = ''50''"
  by code_simp

lemma clean_dollar:
  "RemoveAll (remove_symbols
      (if TrimSpace price_dollar \<in> set default_NullValues then [] else TrimSpace price_dollar)
      (take 6 currencySymbols)) '','' = ''1234.56''"
  by code_simp

lemma clean_euro:
  "RemoveAll (remove_symbols
      (if TrimSpace price_euro \<in> set default_NullValues then [] else TrimSpace price_euro)
      (take 6 currencySymbols)) '','' = ''999.99''"
  by code_simp

lemma clean_pound:
  "RemoveAll (remove_symbols
      (if TrimSpace price_pound \<in> set default_NullValues then [] else TrimSpace price_pound)
      (take 6 currencySymbols)) '','' = ''50''"
  by code_simp

lemma parsed_dollar: "ParseFloat_decimal ''1234.56'' = Inr (Finite (2714826150374277 / 2199023255552))"
  by code_simp

lemma cents_dollar: "int64_of_float64 (f64_mul (Finite (2714826150374277 / 2199023255552)) (Finite 100)) = 123456"
  by code_simp

lemma parsed_euro: "ParseFloat_decimal ''999.99'' = Inr (Finite (4398002530638889 / 4398046511104))"
  by code_simp

lemma cents_euro: "int64_of_float64 (f64_mul (Finite (4398002530638889 / 4398046511104)) (Finite 100)) = 99999"
  by code_simp

lemma parsed_pound: "ParseFloat_decimal ''50'' = Inr (Finite (50))"
  by code_simp

lemma cents_pound: "int64_of_float64 (f64_mul (Finite (50)) (Finite 100)) = 5000"
  by code_simp

lemma parsed_truncated: "ParseFloat_decimal ''19.999'' = Inr (Finite (5629218059236409 / 281474976710656))"
  by code_simp

lemma cents_truncated: "int64_of_float64 (f64_mul (Finite (5629218059236409 / 281474976710656)) (Finite 100)) = 1999"
  by code_simp

text \<open>
  C5. With the multiplier 100 and the library's decimal parser, \<^verbatim>\<open>parseFlexiblePrice\<close> and
  \<^verbatim>\<open>parsePrice\<close> turn the text \<open>$1,234.56\<close> into 123456, the euro amount \<open>999.99\<close> into
  99999 and the pound amount \<open>50\<close> into 5000; the product is truncated, not rounded
  (\<open>19.999\<close> yields 1999); and for every text \<^verbatim>\<open>parseFlexiblePrice\<close> removes the currency
  symbols, commas, spaces and percent signs, parses the remainder as a \<^verbatim>\<open>float64\<close>,
  multiplies by the configured multiplier and converts the product to an integer.
\<close>

theorem currency_parsing_examples:
  "parseFlexiblePrice (lib\<lparr>ParseFloat := ParseFloat_decimal\<rparr>)
     (config\<lparr>PriceMultiplier := Finite 100\<rparr>) price_dollar = Inr 123456 \<and>
   parseFlexiblePrice (lib\<lparr>ParseFloat := ParseFloat_decimal\<rparr>)
     (config\<lparr>PriceMultiplier := Finite 100\<rparr>) price_euro = Inr 99999 \<and>
   parseFlexiblePrice (lib\<lparr>ParseFloat := ParseFloat_decimal\<rparr>)
     (config\<lparr>PriceMultiplier := Finite 100\<rparr>) price_pound = Inr 5000 \<and>
   parseFlexiblePrice (lib\<lparr>ParseFloat := ParseFloat_decimal\<rparr>)
     (config\<lparr>PriceMultiplier := Finite 100\<rparr>) ''19.999'' = Inr 1999 \<and>
   parsePrice (lib\<lparr>ParseFloat := ParseFloat_decimal\<rparr>)
     (config\<lparr>PriceMultiplier := Finite 100, NullValues := default_NullValues\<rparr>) price_dollar =
     Inr 123456 \<and>
   parsePrice (lib\<lparr>ParseFloat := ParseFloat_decimal\<rparr>)
     (config\<lparr>PriceMultiplier := Finite 100, NullValues := default_NullValues\<rparr>) price_euro =
     Inr 99999 \<and>
   parsePrice (lib\<lparr>ParseFloat := ParseFloat_decimal\<rparr>)
     (config\<lparr>PriceMultiplier := Finite 100, NullValues := default_NullValues\<rparr>) price_pound =
     Inr 5000 \<and>
   parseFlexiblePrice lib config priceStr =
     (case ParseFloat lib
             (RemoveAll (RemoveAll (RemoveAll (remove_symbols priceStr currencySymbols) '','') '' '')
                ''%'') of
        Inl err \<Rightarrow> Inl err
      | Inr price \<Rightarrow> Inr (int64_of_float64 (f64_mul price (PriceMultiplier config))))"
proof -
  have plain: "RemoveAll (RemoveAll (RemoveAll (remove_symbols ''19.999'' currencySymbols) '','') '' '') ''%'' = ''19.999''"
    by code_simp
  show ?thesis
    by (simp add: parseFlexiblePrice_def parsePrice_def engine_cleanString_def Let_def
        strip_dollar strip_euro strip_pound clean_dollar clean_euro clean_pound plain
        parsed_dollar parsed_euro parsed_pound parsed_truncated
        cents_dollar cents_euro cents_pound cents_truncated del: f64_mul.simps)
qed

section \<open>Properties of date parsing\<close>

lemma try_formats_find:
  "try_formats lib formats s =
     (case find (\<lambda>f. \<not> isl (time_Parse lib f s)) formats of
        None \<Rightarrow> None
      | Some f \<Rightarrow> (case time_Parse lib f s of Inr date \<Rightarrow> Some date | Inl err \<Rightarrow> None))"
  by (induction formats) (auto split: sum.splits)

lemma try_formats_append:
  "try_formats lib (fs @ gs) s =
     (case try_formats lib fs s of Some d \<Rightarrow> Some d | None \<Rightarrow> try_formats lib gs s)"
  by (induction fs) (auto split: sum.splits)

lemma try_formats_None:
  "try_formats lib formats s = None \<longleftrightarrow> list_all (\<lambda>f. isl (time_Parse lib f s)) formats"
  by (induction formats) (auto split: sum.splits)

text \<open>
  C4, as the code has it. \<^verbatim>\<open>parseFlexibleDate\<close> takes the result of the first layout that
  \<^verbatim>\<open>time.Parse\<close> accepts, trying the configured layouts in their order and then the six
  further layouts; if none accepts the text it reads the text as a Unix timestamp, in
  milliseconds when the number exceeds \<open>10\<^sup>1\<^sup>0\<close> and in seconds otherwise; it returns an
  error exactly when every layout and the numeric reading fail. A timestamp read from a
  number is in the local zone, and one read by a layout is in the zone \<^verbatim>\<open>time.Parse\<close>
  gives it. The later \<^verbatim>\<open>DateNormalization\<close> stage moves a timestamp to UTC unless it is the
  zero instant, which it leaves as it is.
\<close>

theorem flexible_date_parsing:
  "parseFlexibleDate lib config s =
     (case try_formats lib (DateFormats config @ additionalFormats) s of
        Some date \<Rightarrow> Inr date
      | None \<Rightarrow>
          (case ParseInt s of
             Inr timestamp \<Rightarrow>
               Inr (if timestamp > 10 ^ 10
                    then time_Unix (timestamp div 1000) ((timestamp mod 1000) * 10 ^ 6)
                    else time_Unix timestamp 0)
           | Inl err \<Rightarrow> Inl ''unable to parse date format'')) \<and>
   try_formats lib formats s =
     (case find (\<lambda>f. \<not> isl (time_Parse lib f s)) formats of
        None \<Rightarrow> None
      | Some f \<Rightarrow> (case time_Parse lib f s of Inr date \<Rightarrow> Some date | Inl err \<Rightarrow> None)) \<and>
   (isl (parseFlexibleDate lib config s) \<longleftrightarrow>
      list_all (\<lambda>f. isl (time_Parse lib f s)) (DateFormats config @ additionalFormats) \<and>
      isl (ParseInt s)) \<and>
   loc (time_Unix sec ns) = Local \<and>
   TxTime (DateNormalization_Transform tx) =
     (if IsZero (TxTime tx) then TxTime tx else (TxTime tx)\<lparr>loc := UTC\<rparr>)"
proof (intro conjI)
  show first: "parseFlexibleDate lib config s =
     (case try_formats lib (DateFormats config @ additionalFormats) s of
        Some date \<Rightarrow> Inr date
      | None \<Rightarrow>
          (case ParseInt s of
             Inr timestamp \<Rightarrow>
               Inr (if timestamp > 10 ^ 10
                    then time_Unix (timestamp div 1000) ((timestamp mod 1000) * 10 ^ 6)
                    else time_Unix timestamp 0)
           | Inl err \<Rightarrow> Inl ''unable to parse date format''))"
    by (simp add: parseFlexibleDate_def try_formats_append split: option.splits sum.splits)
  show "try_formats lib formats s =
     (case find (\<lambda>f. \<not> isl (time_Parse lib f s)) formats of
        None \<Rightarrow> None
      | Some f \<Rightarrow> (case time_Parse lib f s of Inr date \<Rightarrow> Some date | Inl err \<Rightarrow> None))"
    by (rule try_formats_find)
  show "isl (parseFlexibleDate lib config s) \<longleftrightarrow>
      list_all (\<lambda>f. isl (time_Parse lib f s)) (DateFormats config @ additionalFormats) \<and>
      isl (ParseInt s)"
    unfolding first try_formats_None [symmetric]
    by (auto split: option.splits sum.splits)
  show "loc (time_Unix sec ns) = Local"
    by (simp add: time_Unix_def)
  show "TxTime (DateNormalization_Transform tx) =
     (if IsZero (TxTime tx) then TxTime tx else (TxTime tx)\<lparr>loc := UTC\<rparr>)"
    by (simp add: DateNormalization_Transform_def to_UTC_def)
qed

text \<open>
  C4 as stated fails: the text \<open>1710503445\<close> is parsed, by no layout but as a number of
  seconds, into a timestamp of the local zone, not of UTC; and the text \<open>-62135596800\<close>
  is parsed into the zero instant in the local zone, which \<^verbatim>\<open>DateNormalization\<close> does not
  move to UTC either.
\<close>

theorem unix_timestamp_not_UTC:
  "parseFlexibleDate example_lib getDefaultConfig ''1710503445'' =
     Inr \<lparr>unix_sec = 1710503445, nsec = 0, loc = Local\<rparr> \<and>
   parseFlexibleDate example_lib getDefaultConfig ''-62135596800'' =
     Inr \<lparr>unix_sec = - 62135596800, nsec = 0, loc = Local\<rparr> \<and>
   loc (TxTime (DateNormalization_Transform
         (tx_no_region\<lparr>TxTime := \<lparr>unix_sec = - 62135596800, nsec = 0, loc = Local\<rparr>\<rparr>))) = Local"
  by code_simp

section \<open>Properties of the orchestrator\<close>












end
